theory Spec2Isabelle
  imports Main "HOL-Library.Word"
begin

section \<open>JavaScript values\<close>

text \<open>
  The front end is JavaScript. A JavaScript string is a sequence of 16-bit code units,
  so a string is a list of 16-bit words; \<open>lit\<close> turns an ASCII literal into one.
\<close>

type_synonym jstring = "16 word list"

definition lit :: "string \<Rightarrow> jstring" where
  "lit s = map of_char s"

text \<open>
  The values the code handles are the JSON values and \<open>undefined\<close> (a missing property).
  An object is the list of its own properties in enumeration order, which is the order of
  \<open>Object.entries\<close>. Numbers are IEEE doubles in the language; their type is left open
  (\<open>'n\<close>) and what the code observes of a number (its decimal text and whether it is
  zero or NaN) is supplied by the platform below.
\<close>

datatype 'n jsval =
    Undefined
  | Null
  | Bool bool
  | Num 'n
  | Str jstring
  | Arr "'n jsval list"
  | Obj "(jstring \<times> 'n jsval) list"

text \<open>A thrown value: the three kinds of error object met here, with their message.\<close>

datatype js_error =
    SyntaxError jstring
  | TypeError jstring
  | Error jstring

fun message :: "js_error \<Rightarrow> jstring" where
  "message (SyntaxError m) = m"
| "message (TypeError m) = m"
| "message (Error m) = m"

text \<open>
  What the language runtime provides and the repository does not define:
  \<open>JSON.parse\<close> (\<open>Inl\<close> is the SyntaxError it throws), the conversion of a number to a
  string, the truthiness of a number, and the TypeError thrown by a property read on
  \<open>null\<close> or \<open>undefined\<close>. Every definition below takes the platform as its first
  argument, and the general theorems hold for every platform.
\<close>

record 'n platform =
  JSON_parse :: "jstring \<Rightarrow> js_error + 'n jsval"
  Number_toString :: "'n \<Rightarrow> jstring"
  Number_truthy :: "'n \<Rightarrow> bool"
  nullish_read :: "js_error"

definition bind_js :: "js_error + 'a \<Rightarrow> ('a \<Rightarrow> js_error + 'b) \<Rightarrow> js_error + 'b" where
  "bind_js m f = (case m of Inl e \<Rightarrow> Inl e | Inr v \<Rightarrow> f v)"

text \<open>\<open>!!v\<close>: the falsy values are undefined, null, false, 0, NaN and the empty string.\<close>

fun truthy :: "'n platform \<Rightarrow> 'n jsval \<Rightarrow> bool" where
  "truthy pf Undefined = False"
| "truthy pf Null = False"
| "truthy pf (Bool b) = b"
| "truthy pf (Num n) = Number_truthy pf n"
| "truthy pf (Str s) = (s \<noteq> [])"
| "truthy pf (Arr xs) = True"
| "truthy pf (Obj m) = True"

fun typeof :: "'n jsval \<Rightarrow> string" where
  "typeof Undefined = ''undefined''"
| "typeof Null = ''object''"
| "typeof (Bool b) = ''boolean''"
| "typeof (Num n) = ''number''"
| "typeof (Str s) = ''string''"
| "typeof (Arr xs) = ''object''"
| "typeof (Obj m) = ''object''"

fun isArray :: "'n jsval \<Rightarrow> bool" where
  "isArray (Arr xs) = True"
| "isArray v = False"

text \<open>\<open>v == null\<close> holds of null and undefined only.\<close>

fun nullish :: "'n jsval \<Rightarrow> bool" where
  "nullish Undefined = True"
| "nullish Null = True"
| "nullish v = False"

fun lookup :: "(jstring \<times> 'n jsval) list \<Rightarrow> jstring \<Rightarrow> 'n jsval" where
  "lookup [] k = Undefined"
| "lookup ((k', v) # m) k = (if k' = k then v else lookup m k)"

text \<open>
  \<open>v?.k\<close> for the property names this program reads (\<open>summary\<close>, \<open>relevant_law\<close>,
  \<open>your_rights\<close>, \<open>next_steps\<close>, \<open>disclaimer\<close>, \<open>sources\<close>, \<open>detail\<close>): none of them is
  built in or inherited, so only an object can have one.
\<close>

fun opt_prop :: "'n jsval \<Rightarrow> jstring \<Rightarrow> 'n jsval" where
  "opt_prop (Obj m) k = lookup m k"
| "opt_prop v k = Undefined"

text \<open>\<open>v.k\<close>: as \<open>v?.k\<close>, but reading a property of null or undefined throws.\<close>

definition get_prop :: "'n platform \<Rightarrow> 'n jsval \<Rightarrow> jstring \<Rightarrow> js_error + 'n jsval" where
  "get_prop pf v k = (if nullish v then Inl (nullish_read pf) else Inr (opt_prop v k))"

section \<open>Strings\<close>

fun join :: "jstring \<Rightarrow> jstring list \<Rightarrow> jstring" where
  "join sep [] = []"
| "join sep [x] = x"
| "join sep (x # y # ys) = x @ sep @ join sep (y # ys)"

fun show_nat :: "nat \<Rightarrow> jstring" where
  "show_nat n = (if n < 10 then [of_nat (48 + n)]
                 else show_nat (n div 10) @ [of_nat (48 + n mod 10)])"

text \<open>
  The white space of \<open>String.prototype.trim\<close> and of \<open>\s\<close> in a regular expression:
  the WhiteSpace and LineTerminator code points of ECMAScript.
\<close>

definition is_space :: "16 word \<Rightarrow> bool" where
  "is_space c \<longleftrightarrow>
     c \<in> set [0x9, 0xA, 0xB, 0xC, 0xD, 0x20, 0xA0, 0x1680, 0x2028, 0x2029, 0x202F, 0x205F,
              0x3000, 0xFEFF]
     \<or> (0x2000 \<le> c \<and> c \<le> 0x200A)"

definition trim :: "jstring \<Rightarrow> jstring" where
  "trim s = rev (dropWhile is_space (rev (dropWhile is_space s)))"

definition startsWith :: "jstring \<Rightarrow> jstring \<Rightarrow> bool" where
  "startsWith s p \<longleftrightarrow> take (length p) s = p"

fun includes_js :: "jstring \<Rightarrow> jstring \<Rightarrow> bool" where
  "includes_js [] p = (p = [])"
| "includes_js (c # cs) p = (startsWith (c # cs) p \<or> includes_js cs p)"

text \<open>\<open>s.split(sep)\<close> for a separator of one code unit.\<close>

fun split :: "jstring \<Rightarrow> 16 word \<Rightarrow> jstring list" where
  "split [] sep = [[]]"
| "split (c # cs) sep =
     (if c = sep then [] # split cs sep
      else (case split cs sep of [] \<Rightarrow> [[c]] | l # ls \<Rightarrow> (c # l) # ls))"

text \<open>
  \<open>s.replace(/```json?\s*/g, '')\<close>: scanning from the left, each match is the six code
  units \<open>```jso\<close>, an \<open>n\<close> if one follows, and all the white space after that; the match
  is removed and the scan goes on behind it.
\<close>

function replace_fence_open :: "jstring \<Rightarrow> jstring" where
  "replace_fence_open s =
     (if s = [] then []
      else if startsWith s (lit ''```jso'')
      then replace_fence_open
             (dropWhile is_space
                (let r = drop 6 s in if startsWith r (lit ''n'') then drop 1 r else r))
      else hd s # replace_fence_open (tl s))"
  by pat_completeness auto
termination
proof (relation "measure length")
  fix s :: jstring
  assume ne: "s \<noteq> []" and st: "startsWith s (lit ''```jso'')"
  have len: "length (lit ''```jso'') = 6"
    by (simp add: lit_def)
  from st have "length (take (length (lit ''```jso'')) s) = length (lit ''```jso'')"
    by (simp only: startsWith_def)
  then have six: "6 \<le> length s"
    unfolding len by simp
  have "length (dropWhile is_space (drop 7 s)) \<le> length (drop 7 s)"
    by (rule length_dropWhile_le)
  moreover have "length (dropWhile is_space (drop 6 s)) \<le> length (drop 6 s)"
    by (rule length_dropWhile_le)
  ultimately show "(dropWhile is_space (let r = drop 6 s in if startsWith r (lit ''n'') then drop 1 r else r), s)
                  \<in> measure length"
    using six by (auto simp: Let_def)
qed (auto simp: neq_Nil_conv)

text \<open>
  \<open>s.replace(/```\s*$/g, '')\<close>: there is no \<open>m\<close> flag, so \<open>$\<close> is the end of the input.
  The leftmost match is the first position where three backticks are followed by white
  space only, up to the end; it is removed, and nothing can match after it.
\<close>

fun replace_fence_close :: "jstring \<Rightarrow> jstring" where
  "replace_fence_close [] = []"
| "replace_fence_close (c # cs) =
     (if startsWith (c # cs) (lit ''```'') \<and> list_all is_space (drop 3 (c # cs)) then []
      else c # replace_fence_close cs)"

section \<open>ChatMessage: flattenToString and normalizeData\<close>

text \<open>
  \<open>String(v)\<close> and \<open>`${v}`\<close>. An array prints as its elements joined by commas, where a
  null or undefined element prints as nothing; a plain object prints as
  \<open>[object Object]\<close>.
\<close>

fun to_string :: "'n platform \<Rightarrow> 'n jsval \<Rightarrow> jstring" where
  "to_string pf Undefined = lit ''undefined''"
| "to_string pf Null = lit ''null''"
| "to_string pf (Bool b) = (if b then lit ''true'' else lit ''false'')"
| "to_string pf (Num n) = Number_toString pf n"
| "to_string pf (Str s) = s"
| "to_string pf (Arr xs) =
     join (lit '','') (map (\<lambda>x. if nullish x then [] else to_string pf x) xs)"
| "to_string pf (Obj m) = lit ''[object Object]''"

text \<open>\<open>xs.join(sep)\<close> on an array of values.\<close>

definition array_join :: "'n platform \<Rightarrow> 'n jsval list \<Rightarrow> jstring \<Rightarrow> jstring" where
  "array_join pf xs sep = join sep (map (\<lambda>x. if nullish x then [] else to_string pf x) xs)"

text \<open>
  \<open>Object.entries(v)\<close> where the code calls it: on an object, and on an array (an item
  of an array that is itself an array passes the test \<open>typeof item === 'object'\<close>), whose
  entries are its elements under their indices.
\<close>

fun entries :: "'n jsval \<Rightarrow> (jstring \<times> 'n jsval) list" where
  "entries (Obj m) = m"
| "entries (Arr xs) = zip (map show_nat [0..<length xs]) xs"
| "entries v = []"

text \<open>The arrow function \<open>([k, v]) => `${k}: ${Array.isArray(v) ? v.join(', ') : v}`\<close>.\<close>

fun entry_text :: "'n platform \<Rightarrow> jstring \<times> 'n jsval \<Rightarrow> jstring" where
  "entry_text pf (k, v) =
     k @ lit '': '' @ (case v of Arr xs \<Rightarrow> array_join pf xs (lit '', '') | _ \<Rightarrow> to_string pf v)"

definition flattenToString :: "'n platform \<Rightarrow> 'n jsval \<Rightarrow> jstring" where
  "flattenToString pf val =
     (if nullish val then []
      else if typeof val = ''string'' then to_string pf val
      else if isArray val then
        join (lit ''; '')
          (map (\<lambda>item.
                  if typeof item = ''string'' then to_string pf item
                  else if typeof item = ''object'' \<and> item \<noteq> Null
                  then join (lit ''. '') (map (entry_text pf) (entries item))
                  else to_string pf item)
               (case val of Arr xs \<Rightarrow> xs | _ \<Rightarrow> []))
      else if typeof val = ''object'' then join (lit ''. '') (map (entry_text pf) (entries val))
      else to_string pf val)"

definition DEFAULT_DISCLAIMER :: jstring where
  "DEFAULT_DISCLAIMER = lit ''This is informational only and does not constitute legal advice.''"

text \<open>The expression \<open>s.replace(/```json?\s*/g, '').replace(/```\s*$/g, '')\<close>, used twice.\<close>

definition strip_fences :: "jstring \<Rightarrow> jstring" where
  "strip_fences s = replace_fence_close (replace_fence_open s)"

text \<open>The object literals of the two early returns, with the summary and disclaimer given.\<close>

definition plain_response :: "jstring \<Rightarrow> jstring \<Rightarrow> 'n jsval" where
  "plain_response s d =
     Obj [(lit ''summary'', Str s), (lit ''relevant_law'', Str []), (lit ''your_rights'', Str []),
          (lit ''next_steps'', Arr []), (lit ''disclaimer'', Str d)]"

text \<open>
  Lines 57 to 63: a summary that is a string starting (after trimming) with \<open>{\<close> and
  containing \<open>"summary"\<close> is parsed; if the result has a truthy \<open>summary\<close> it replaces
  \<open>data\<close>. A failed parse is ignored.
\<close>

definition looks_nested :: "'n jsval \<Rightarrow> bool" where
  "looks_nested summary \<longleftrightarrow>
     (case summary of
        Str s \<Rightarrow> startsWith (trim s) (lit ''{'') \<and> includes_js s (lit ''\"summary\"'')
      | _ \<Rightarrow> False)"

definition unwrap_summary :: "'n platform \<Rightarrow> 'n jsval \<Rightarrow> js_error + 'n jsval" where
  "unwrap_summary pf data =
     bind_js (get_prop pf data (lit ''summary'')) (\<lambda>s0.
       let summary = (if truthy pf s0 then s0 else Str []) in
       Inr (if looks_nested summary
            then (case JSON_parse pf (strip_fences (to_string pf summary)) of
                    Inr inner \<Rightarrow> if truthy pf (opt_prop inner (lit ''summary'')) then inner else data
                  | Inl e \<Rightarrow> data)
            else data))"

text \<open>The value of the \<open>next_steps\<close> field of the object returned last.\<close>

definition next_steps_of :: "'n platform \<Rightarrow> 'n jsval \<Rightarrow> 'n jsval" where
  "next_steps_of pf v =
     (case v of
        Arr xs \<Rightarrow> Arr (map (\<lambda>x. Str (flattenToString pf x)) xs)
      | Str s \<Rightarrow> Arr (map Str (filter (\<lambda>l. trim l \<noteq> []) (split s 0xA)))
      | _ \<Rightarrow> Arr [])"

text \<open>Lines 65 to 73: the object returned last, its properties read in source order.\<close>

definition structured :: "'n platform \<Rightarrow> 'n jsval \<Rightarrow> js_error + 'n jsval" where
  "structured pf data =
     bind_js (get_prop pf data (lit ''summary'')) (\<lambda>sm.
     bind_js (get_prop pf data (lit ''relevant_law'')) (\<lambda>rl.
     bind_js (get_prop pf data (lit ''your_rights'')) (\<lambda>yr.
     bind_js (get_prop pf data (lit ''next_steps'')) (\<lambda>ns.
     bind_js (get_prop pf data (lit ''disclaimer'')) (\<lambda>dc.
     bind_js (get_prop pf data (lit ''sources'')) (\<lambda>so.
       Inr (Obj [(lit ''summary'', Str (flattenToString pf sm)),
                 (lit ''relevant_law'', Str (flattenToString pf rl)),
                 (lit ''your_rights'', Str (flattenToString pf yr)),
                 (lit ''next_steps'', next_steps_of pf ns),
                 (lit ''disclaimer'',
                    Str (let d = flattenToString pf dc in if d \<noteq> [] then d else DEFAULT_DISCLAIMER)),
                 (lit ''sources'', if truthy pf so then so else Arr [])])))))))"

text \<open>
  Lines 43 to 51: for a string, the fences are stripped, the text is trimmed and parsed
  once. \<open>Inl\<close> is the value returned from the \<open>catch\<close>; \<open>Inr\<close> is \<open>data\<close> after the block.
\<close>

definition parse_raw :: "'n platform \<Rightarrow> 'n jsval \<Rightarrow> 'n jsval + 'n jsval" where
  "parse_raw pf raw =
     (case raw of
        Str text \<Rightarrow>
          (let cleaned = trim (strip_fences text) in
           case JSON_parse pf cleaned of
             Inr parsed \<Rightarrow>
               Inr (if truthy pf parsed \<and> typeof parsed = ''object'' \<and> \<not> isArray parsed
                    then parsed else raw)
           | Inl e \<Rightarrow> Inl (plain_response text DEFAULT_DISCLAIMER))
      | _ \<Rightarrow> Inr raw)"

definition normalizeData :: "'n platform \<Rightarrow> 'n jsval \<Rightarrow> js_error + 'n jsval" where
  "normalizeData pf raw =
     (if \<not> truthy pf raw then Inr (Obj [])
      else case parse_raw pf raw of
        Inl returned \<Rightarrow> Inr returned
      | Inr data \<Rightarrow>
          if typeof data \<noteq> ''object'' \<or> isArray data
          then Inr (plain_response (to_string pf raw) [])
          else bind_js (unwrap_summary pf data) (structured pf))"

text \<open>
  The shape the returned fields are to have: four strings and an array of strings.
\<close>

definition is_Str :: "'n jsval \<Rightarrow> bool" where
  "is_Str v = (case v of Str s \<Rightarrow> True | _ \<Rightarrow> False)"

definition is_Str_array :: "'n jsval \<Rightarrow> bool" where
  "is_Str_array v = (case v of Arr xs \<Rightarrow> list_all is_Str xs | _ \<Rightarrow> False)"

definition has_string_fields :: "'n jsval \<Rightarrow> bool" where
  "has_string_fields r \<longleftrightarrow>
     is_Str (opt_prop r (lit ''summary'')) \<and> is_Str (opt_prop r (lit ''relevant_law''))
     \<and> is_Str (opt_prop r (lit ''your_rights'')) \<and> is_Str (opt_prop r (lit ''disclaimer''))
     \<and> is_Str_array (opt_prop r (lit ''next_steps''))"

section \<open>The API client\<close>

text \<open>
  \<open>fetch\<close> is the network: a function from the request to the response it resolves with,
  or to the error it rejects with. The request body is kept as the value handed to
  \<open>JSON.stringify\<close>.
\<close>

record 'n request =
  url :: jstring
  http_method :: jstring
  headers :: "(jstring \<times> jstring) list"
  body :: "'n jsval option"

record response =
  ok :: bool
  status :: nat
  body_text :: jstring

type_synonym 'n fetch = "'n request \<Rightarrow> js_error + response"

text \<open>\<open>response.json()\<close> reads the body and parses it.\<close>

definition response_json :: "'n platform \<Rightarrow> response \<Rightarrow> js_error + 'n jsval" where
  "response_json pf r = JSON_parse pf (body_text r)"




section \<open>The keep-alive handler\<close>

text \<open>What the handler sends through \<open>res\<close>: the status code and the JSON payload.\<close>

record 'n sent =
  code :: nat
  payload :: "'n jsval"

text \<open>
  The arguments after the platform are the network, the variable
  \<open>process.env.VITE_API_URL\<close> and the clock's \<open>new Date().toISOString()\<close>. The \<open>case\<close> is
  the \<open>try\<close> with its \<open>catch\<close>.
\<close>

definition health_request :: "jstring option \<Rightarrow> 'n request" where
  "health_request env =
     (let backendUrl = (case env of
                          None \<Rightarrow> lit ''https://nyayaai-backend.onrender.com''
                        | Some u \<Rightarrow> if u \<noteq> [] then u else lit ''https://nyayaai-backend.onrender.com'')
      in \<lparr> url = backendUrl @ lit ''/health'', http_method = lit ''GET'',
            headers = [(lit ''Accept'', lit ''application/json'')], body = None \<rparr>)"

definition handler ::
    "'n platform \<Rightarrow> 'n fetch \<Rightarrow> jstring option \<Rightarrow> jstring \<Rightarrow> js_error + 'n sent" where
  "handler pf fetch env now =
     (case bind_js (fetch (health_request env))
             (\<lambda>response. bind_js (response_json pf response)
             (\<lambda>data. Inr \<lparr> code = 200,
                           payload = Obj [(lit ''status'', Str (lit ''ok'')),
                                          (lit ''timestamp'', Str now),
                                          (lit ''backend'', data)] \<rparr>)) of
        Inr r \<Rightarrow> Inr r
      | Inl error \<Rightarrow>
          Inr \<lparr> code = 500,
                payload = Obj [(lit ''status'', Str (lit ''error'')),
                               (lit ''timestamp'', Str now),
                               (lit ''message'', Str (message error))] \<rparr>)"

section \<open>ChatInput\<close>


text \<open>The attributes of the rendered textarea that bear on what can be typed.\<close>

record textarea =
  val :: jstring
  disabled :: bool
  maxLength :: nat






section \<open>App\<close>

datatype 'n chat_message = UserMessage jstring | AssistantMessage "'n jsval"

record 'n app =
  messages :: "'n chat_message list"
  isLoading :: bool
  language :: jstring
  error :: "jstring option"






section \<open>The parser chain as the specification words it\<close>

text \<open>
  Section 4.10 of the specification describes three parse attempts in order: the full
  text, the text without its code-fence markers, and the first balanced \<open>{...}\<close> span.
  These definitions follow those words, to be compared with \<open>normalizeData\<close>.
\<close>

fun spec_span_from :: "nat \<Rightarrow> jstring \<Rightarrow> jstring \<Rightarrow> jstring option" where
  "spec_span_from depth acc [] = None"
| "spec_span_from depth acc (c # cs) =
     (if c = 0x7B then spec_span_from (Suc depth) (acc @ [c]) cs
      else if c = 0x7D then
        (if depth \<le> 1 then Some (acc @ [c]) else spec_span_from (depth - 1) (acc @ [c]) cs)
      else spec_span_from depth (acc @ [c]) cs)"

definition spec_first_balanced_span :: "jstring \<Rightarrow> jstring option" where
  "spec_first_balanced_span s =
     (case dropWhile (\<lambda>c. c \<noteq> 0x7B) s of
        [] \<Rightarrow> None
      | c # cs \<Rightarrow> spec_span_from 1 [c] cs)"

definition spec_parse_chain :: "'n platform \<Rightarrow> jstring \<Rightarrow> 'n jsval option" where
  "spec_parse_chain pf raw =
     (case JSON_parse pf raw of
        Inr v \<Rightarrow> Some v
      | Inl e1 \<Rightarrow>
          (case JSON_parse pf (trim (strip_fences raw)) of
             Inr v \<Rightarrow> Some v
           | Inl e2 \<Rightarrow>
               (case spec_first_balanced_span raw of
                  None \<Rightarrow> None
                | Some span \<Rightarrow>
                    (case JSON_parse pf span of Inr v \<Rightarrow> Some v | Inl e3 \<Rightarrow> None))))"

section \<open>A reference platform\<close>

text \<open>
  To run the definitions on concrete inputs, one platform is written out: a reader for the
  JSON grammar of ECMA-404, as \<open>JSON.parse\<close> implements it. It is a lexer that takes one
  code unit at a time and a pushdown reader that takes one token at a time, so both are
  structurally recursive. A number literal is kept as the exact decimal it denotes
  (the language rounds it to a double).
\<close>

datatype decimal = Decimal bool "nat list" int

definition is_digit :: "16 word \<Rightarrow> bool" where
  "is_digit c \<longleftrightarrow> 0x30 \<le> c \<and> c \<le> 0x39"

definition digit_val :: "16 word \<Rightarrow> nat" where
  "digit_val c = unat c - 48"

definition int_of_digits :: "jstring \<Rightarrow> int" where
  "int_of_digits s = foldl (\<lambda>a c. 10 * a + int (digit_val c)) 0 s"

text \<open>
  The number grammar: an optional minus, an integer part without a leading zero, an
  optional fraction and an optional exponent, each with at least one digit.
  \<open>Decimal neg ds e\<close> is the number with the decimal digits \<open>ds\<close>, times \<open>10 ^ e\<close>.
\<close>

definition read_number :: "jstring \<Rightarrow> decimal option" where
  "read_number s =
     (let neg = startsWith s (lit ''-'');
          s1 = (if neg then drop 1 s else s);
          ip = takeWhile is_digit s1;
          s2 = dropWhile is_digit s1;
          has_frac = startsWith s2 (lit ''.'');
          fp = (if has_frac then takeWhile is_digit (drop 1 s2) else []);
          s3 = (if has_frac then dropWhile is_digit (drop 1 s2) else s2);
          has_exp = (startsWith s3 (lit ''e'') \<or> startsWith s3 (lit ''E''));
          s4 = drop 1 s3;
          eneg = startsWith s4 (lit ''-'');
          s5 = (if eneg \<or> startsWith s4 (lit ''+'') then drop 1 s4 else s4);
          ed = takeWhile is_digit s5;
          rest = (if has_exp then dropWhile is_digit s5 else s3);
          ex = (if has_exp then (if eneg then - int_of_digits ed else int_of_digits ed)
                else 0)
      in if ip \<noteq> [] \<and> (length ip = 1 \<or> hd ip \<noteq> 0x30) \<and> (if has_frac then fp \<noteq> [] else True)
            \<and> (if has_exp then ed \<noteq> [] else True) \<and> rest = []
         then Some (Decimal neg (map digit_val (ip @ fp)) (ex - int (length fp)))
         else None)"

text \<open>
  Number to string, as ECMAScript's \<open>Number::toString\<close> lays the digits out: plain digits
  up to 21 places, a leading \<open>0.\<close> down to six places behind the point, and the exponent
  form beyond.
\<close>

definition decimal_toString :: "decimal \<Rightarrow> jstring" where
  "decimal_toString d =
     (case d of Decimal neg ds e \<Rightarrow>
        let ds1 = dropWhile (\<lambda>x. x = 0) ds;
            ds2 = rev (dropWhile (\<lambda>x. x = 0) (rev ds1));
            k = length ds2;
            n = int (length ds1) + e;
            D = map (\<lambda>x. of_nat (48 + x)) ds2;
            sign = (if neg then lit ''-'' else [])
        in if ds2 = [] then lit ''0''
           else if int k \<le> n \<and> n \<le> 21 then sign @ D @ replicate (nat n - k) 0x30
           else if 0 < n \<and> n \<le> 21 then sign @ take (nat n) D @ lit ''.'' @ drop (nat n) D
           else if - 6 < n \<and> n \<le> 0 then sign @ lit ''0.'' @ replicate (nat (- n)) 0x30 @ D
           else sign @ take 1 D @ (if k = 1 then [] else lit ''.'' @ drop 1 D) @ lit ''e''
                  @ (if n - 1 < 0 then lit ''-'' else lit ''+'') @ show_nat (nat \<bar>n - 1\<bar>))"

definition decimal_truthy :: "decimal \<Rightarrow> bool" where
  "decimal_truthy d = (case d of Decimal neg ds e \<Rightarrow> list_ex (\<lambda>x. x \<noteq> 0) ds)"

datatype token =
    TLBrace | TRBrace | TLBracket | TRBracket | TColon | TComma
  | TString jstring | TNumber decimal | TTrue | TFalse | TNull

text \<open>
  The lexer's state: between tokens, inside a string, behind a backslash, inside the four
  hexadecimal digits of a \<open>\u\<close> escape, inside a number, inside a word.
\<close>

datatype lex_mode =
    LTop | LStr jstring | LEsc jstring | LHex jstring nat nat | LNum jstring | LWord jstring

definition is_json_space :: "16 word \<Rightarrow> bool" where
  "is_json_space c \<longleftrightarrow> c \<in> set [0x20, 0x9, 0xA, 0xD]"

definition is_lower :: "16 word \<Rightarrow> bool" where
  "is_lower c \<longleftrightarrow> 0x61 \<le> c \<and> c \<le> 0x7A"

definition is_number_char :: "16 word \<Rightarrow> bool" where
  "is_number_char c \<longleftrightarrow> is_digit c \<or> c \<in> set (lit ''+-.eE'')"

definition hex_val :: "16 word \<Rightarrow> nat option" where
  "hex_val c =
     (if is_digit c then Some (unat c - 48)
      else if 0x41 \<le> c \<and> c \<le> 0x46 then Some (unat c - 55)
      else if 0x61 \<le> c \<and> c \<le> 0x66 then Some (unat c - 87)
      else None)"

definition word_token :: "jstring \<Rightarrow> token option" where
  "word_token w =
     (if w = lit ''true'' then Some TTrue
      else if w = lit ''false'' then Some TFalse
      else if w = lit ''null'' then Some TNull
      else None)"

definition lex_top :: "token list \<Rightarrow> 16 word \<Rightarrow> (lex_mode \<times> token list) option" where
  "lex_top acc c =
     (if is_json_space c then Some (LTop, acc)
      else if c = 0x7B then Some (LTop, acc @ [TLBrace])
      else if c = 0x7D then Some (LTop, acc @ [TRBrace])
      else if c = 0x5B then Some (LTop, acc @ [TLBracket])
      else if c = 0x5D then Some (LTop, acc @ [TRBracket])
      else if c = 0x3A then Some (LTop, acc @ [TColon])
      else if c = 0x2C then Some (LTop, acc @ [TComma])
      else if c = 0x22 then Some (LStr [], acc)
      else if c = 0x2D \<or> is_digit c then Some (LNum [c], acc)
      else if is_lower c then Some (LWord [c], acc)
      else None)"

definition lex_flush :: "lex_mode \<Rightarrow> token list \<Rightarrow> token list option" where
  "lex_flush mode acc =
     (case mode of
        LTop \<Rightarrow> Some acc
      | LNum s \<Rightarrow> map_option (\<lambda>d. acc @ [TNumber d]) (read_number s)
      | LWord w \<Rightarrow> map_option (\<lambda>t. acc @ [t]) (word_token w)
      | _ \<Rightarrow> None)"

definition escape_char :: "16 word \<Rightarrow> 16 word option" where
  "escape_char c =
     (if c = 0x22 \<or> c = 0x5C \<or> c = 0x2F then Some c
      else if c = 0x62 then Some 0x8
      else if c = 0x66 then Some 0xC
      else if c = 0x6E then Some 0xA
      else if c = 0x72 then Some 0xD
      else if c = 0x74 then Some 0x9
      else None)"

definition lex_step :: "lex_mode \<Rightarrow> token list \<Rightarrow> 16 word \<Rightarrow> (lex_mode \<times> token list) option" where
  "lex_step mode acc c =
     (case mode of
        LTop \<Rightarrow> lex_top acc c
      | LStr s \<Rightarrow>
          if c = 0x22 then Some (LTop, acc @ [TString s])
          else if c = 0x5C then Some (LEsc s, acc)
          else if c < 0x20 then None
          else Some (LStr (s @ [c]), acc)
      | LEsc s \<Rightarrow>
          if c = 0x75 then Some (LHex s 4 0, acc)
          else map_option (\<lambda>x. (LStr (s @ [x]), acc)) (escape_char c)
      | LHex s k v \<Rightarrow>
          (case hex_val c of
             None \<Rightarrow> None
           | Some h \<Rightarrow>
               if k \<le> 1 then Some (LStr (s @ [of_nat (16 * v + h)]), acc)
               else Some (LHex s (k - 1) (16 * v + h), acc))
      | LNum s \<Rightarrow>
          if is_number_char c then Some (LNum (s @ [c]), acc)
          else (case lex_flush (LNum s) acc of None \<Rightarrow> None | Some acc' \<Rightarrow> lex_top acc' c)
      | LWord w \<Rightarrow>
          if is_lower c then Some (LWord (w @ [c]), acc)
          else (case lex_flush (LWord w) acc of None \<Rightarrow> None | Some acc' \<Rightarrow> lex_top acc' c))"

fun lex :: "lex_mode \<Rightarrow> token list \<Rightarrow> jstring \<Rightarrow> token list option" where
  "lex mode acc [] = lex_flush mode acc"
| "lex mode acc (c # cs) =
     (case lex_step mode acc c of
        None \<Rightarrow> None
      | Some (mode', acc') \<Rightarrow> lex mode' acc' cs)"

text \<open>
  Own properties are enumerated with the array indices first, in ascending order, then
  the other names in the order they were created; defining a name again keeps its place.
\<close>

definition array_index :: "jstring \<Rightarrow> int option" where
  "array_index k =
     (if k \<noteq> [] \<and> list_all is_digit k \<and> (length k = 1 \<or> hd k \<noteq> 0x30)
           \<and> int_of_digits k < 4294967295
      then Some (int_of_digits k) else None)"

fun insert_index :: "(jstring \<times> 'n jsval) list \<Rightarrow> int \<Rightarrow> jstring \<times> 'n jsval \<Rightarrow> (jstring \<times> 'n jsval) list" where
  "insert_index [] i e = [e]"
| "insert_index (p # m) i e =
     (case array_index (fst p) of
        Some j \<Rightarrow> if j < i then p # insert_index m i e else e # p # m
      | None \<Rightarrow> e # p # m)"

definition obj_put :: "(jstring \<times> 'n jsval) list \<Rightarrow> jstring \<Rightarrow> 'n jsval \<Rightarrow> (jstring \<times> 'n jsval) list" where
  "obj_put m k v =
     (if k \<in> set (map fst m) then map (\<lambda>p. if fst p = k then (k, v) else p) m
      else case array_index k of
        Some i \<Rightarrow> insert_index m i (k, v)
      | None \<Rightarrow> m @ [(k, v)])"

text \<open>
  The reader's stack holds the arrays and objects still open: an array with the elements
  read so far, an object waiting for a name, an object whose name has been read.
\<close>

datatype frame =
    FArr "decimal jsval list"
  | FObj "(jstring \<times> decimal jsval) list"
  | FKey "(jstring \<times> decimal jsval) list" jstring

datatype parse_mode = PValue | PValueOrEnd | PKeyOrEnd | PKey | PColon | PSep | PDone "decimal jsval"

fun deliver :: "decimal jsval \<Rightarrow> frame list \<Rightarrow> (parse_mode \<times> frame list) option" where
  "deliver v [] = Some (PDone v, [])"
| "deliver v (FArr xs # st) = Some (PSep, FArr (xs @ [v]) # st)"
| "deliver v (FKey m k # st) = Some (PSep, FObj (obj_put m k v) # st)"
| "deliver v (FObj m # st) = None"

fun value_start :: "token \<Rightarrow> frame list \<Rightarrow> (parse_mode \<times> frame list) option" where
  "value_start TLBrace st = Some (PKeyOrEnd, FObj [] # st)"
| "value_start TLBracket st = Some (PValueOrEnd, FArr [] # st)"
| "value_start (TString s) st = deliver (Str s) st"
| "value_start (TNumber d) st = deliver (Num d) st"
| "value_start TTrue st = deliver (Bool True) st"
| "value_start TFalse st = deliver (Bool False) st"
| "value_start TNull st = deliver Null st"
| "value_start t st = None"

fun key_start :: "token \<Rightarrow> frame list \<Rightarrow> (parse_mode \<times> frame list) option" where
  "key_start (TString k) (FObj m # st) = Some (PColon, FKey m k # st)"
| "key_start t st = None"

fun close_or_next :: "token \<Rightarrow> frame list \<Rightarrow> (parse_mode \<times> frame list) option" where
  "close_or_next TComma (FArr xs # st) = Some (PValue, FArr xs # st)"
| "close_or_next TComma (FObj m # st) = Some (PKey, FObj m # st)"
| "close_or_next TRBracket (FArr xs # st) = deliver (Arr xs) st"
| "close_or_next TRBrace (FObj m # st) = deliver (Obj m) st"
| "close_or_next t st = None"

fun parse_step :: "parse_mode \<Rightarrow> frame list \<Rightarrow> token \<Rightarrow> (parse_mode \<times> frame list) option" where
  "parse_step PValue st t = value_start t st"
| "parse_step PValueOrEnd st t = (if t = TRBracket then close_or_next t st else value_start t st)"
| "parse_step PKeyOrEnd st t = (if t = TRBrace then close_or_next t st else key_start t st)"
| "parse_step PKey st t = key_start t st"
| "parse_step PColon st t = (if t = TColon then Some (PValue, st) else None)"
| "parse_step PSep st t = close_or_next t st"
| "parse_step (PDone v) st t = None"

fun parse_tokens :: "parse_mode \<Rightarrow> frame list \<Rightarrow> token list \<Rightarrow> decimal jsval option" where
  "parse_tokens mode st [] = (case mode of PDone v \<Rightarrow> Some v | _ \<Rightarrow> None)"
| "parse_tokens mode st (t # ts) =
     (case parse_step mode st t of
        None \<Rightarrow> None
      | Some (mode', st') \<Rightarrow> parse_tokens mode' st' ts)"

definition json_read :: "jstring \<Rightarrow> decimal jsval option" where
  "json_read s = (case lex LTop [] s of None \<Rightarrow> None | Some ts \<Rightarrow> parse_tokens PValue [] ts)"

definition reference_platform :: "decimal platform" where
  "reference_platform =
     \<lparr> JSON_parse = (\<lambda>s. case json_read s of
                            Some v \<Rightarrow> Inr v
                          | None \<Rightarrow> Inl (SyntaxError (lit ''Unexpected token in JSON''))),
       Number_toString = decimal_toString,
       Number_truthy = decimal_truthy,
       nullish_read = TypeError (lit ''Cannot read properties of null or undefined'') \<rparr>"

section \<open>Properties of flattenToString\<close>



section \<open>Properties of normalizeData\<close>

lemma opt_prop_truthy_Obj: "truthy pf (opt_prop v k) \<Longrightarrow> \<exists>m. v = Obj m"
  by (cases v) auto


text \<open>Lines 57 to 63 turn an object into an object and never throw.\<close>

lemma unwrap_summary_Obj: "\<exists>m'. unwrap_summary pf (Obj m) = Inr (Obj m')"
proof -
  define summary where
    "summary = (if truthy pf (lookup m (lit ''summary'')) then lookup m (lit ''summary'') else Str [])"
  show ?thesis
  proof (cases "looks_nested summary")
    case False
    then show ?thesis
      by (simp add: unwrap_summary_def get_prop_def bind_js_def Let_def summary_def)
  next
    case nested: True
    show ?thesis
    proof (cases "JSON_parse pf (strip_fences (to_string pf summary))")
      case (Inl e)
      with nested show ?thesis
        by (simp add: unwrap_summary_def get_prop_def bind_js_def Let_def summary_def)
    next
      case (Inr inner)
      show ?thesis
      proof (cases "truthy pf (opt_prop inner (lit ''summary''))")
        case True
        then obtain mi where "inner = Obj mi"
          using opt_prop_truthy_Obj by blast
        with nested Inr True show ?thesis
          by (simp add: unwrap_summary_def get_prop_def bind_js_def Let_def summary_def)
      next
        case False
        with nested Inr show ?thesis
          by (simp add: unwrap_summary_def get_prop_def bind_js_def Let_def summary_def)
      qed
    qed
  qed
qed

text \<open>The object returned last, for an object \<open>data\<close>.\<close>

lemma structured_Obj:
  "structured pf (Obj m) =
     Inr (Obj [(lit ''summary'', Str (flattenToString pf (lookup m (lit ''summary'')))),
               (lit ''relevant_law'', Str (flattenToString pf (lookup m (lit ''relevant_law'')))),
               (lit ''your_rights'', Str (flattenToString pf (lookup m (lit ''your_rights'')))),
               (lit ''next_steps'', next_steps_of pf (lookup m (lit ''next_steps''))),
               (lit ''disclaimer'',
                  Str (if flattenToString pf (lookup m (lit ''disclaimer'')) \<noteq> []
                       then flattenToString pf (lookup m (lit ''disclaimer''))
                       else DEFAULT_DISCLAIMER)),
               (lit ''sources'', if truthy pf (lookup m (lit ''sources''))
                                 then lookup m (lit ''sources'') else Arr [])])"
  by (simp add: structured_def get_prop_def bind_js_def Let_def)

lemma normalizeData_Obj:
  "normalizeData pf (Obj m) = bind_js (unwrap_summary pf (Obj m)) (structured pf)"
  by (simp add: normalizeData_def parse_raw_def)



text \<open>The three ways a non-empty string leaves lines 43 to 55.\<close>

lemma normalizeData_Str_fail:
  assumes "s \<noteq> []" and "JSON_parse pf (trim (strip_fences s)) = Inl e"
  shows "normalizeData pf (Str s) = Inr (plain_response s DEFAULT_DISCLAIMER)"
  using assms by (simp add: normalizeData_def parse_raw_def)

lemma normalizeData_Str_Obj:
  assumes "s \<noteq> []" and "JSON_parse pf (trim (strip_fences s)) = Inr (Obj m)"
  shows "normalizeData pf (Str s) = normalizeData pf (Obj m)"
  using assms by (simp add: normalizeData_def parse_raw_def)

lemma normalizeData_Str_other:
  assumes "s \<noteq> []" and "JSON_parse pf (trim (strip_fences s)) = Inr v" and "\<And>m. v \<noteq> Obj m"
  shows "normalizeData pf (Str s) = Inr (plain_response s [])"
  using assms by (cases v) (auto simp: normalizeData_def parse_raw_def)




text \<open>
  C2, as the code has it. For a non-empty string there is one parse attempt, on the text
  with its fence markers removed and trimmed. If that attempt fails the result is the
  fallback with the raw text as summary, empty relevant_law and your_rights, no next
  steps and the default disclaimer, whatever else the text contains; if it gives an
  object the result is that of normalising the object.
\<close>

theorem normalizeData_single_parse:
  assumes "s \<noteq> []"
  shows "(\<forall>e. JSON_parse pf (trim (strip_fences s)) = Inl e \<longrightarrow>
            normalizeData pf (Str s) =
              Inr (Obj [(lit ''summary'', Str s), (lit ''relevant_law'', Str []),
                        (lit ''your_rights'', Str []), (lit ''next_steps'', Arr []),
                        (lit ''disclaimer'', Str DEFAULT_DISCLAIMER)]))
       \<and> (\<forall>m. JSON_parse pf (trim (strip_fences s)) = Inr (Obj m) \<longrightarrow>
            normalizeData pf (Str s) = normalizeData pf (Obj m))"
  using assms by (simp add: normalizeData_Str_fail normalizeData_Str_Obj plain_response_def)

theorem normalizeData_single_parse_witness:
  \<open>normalizeData reference_platform (Str (lit ''I cannot answer that.'')) =
      Inr (Obj [(lit ''summary'', Str (lit ''I cannot answer that.'')), (lit ''relevant_law'', Str []),
                (lit ''your_rights'', Str []), (lit ''next_steps'', Arr []),
                (lit ''disclaimer'', Str DEFAULT_DISCLAIMER)])
   \<and> normalizeData reference_platform (Str (lit '' {"summary": "ok"} ```''))
       = normalizeData reference_platform (Obj [(lit ''summary'', Str (lit ''ok''))])\<close>
proof -
  have p1: "JSON_parse reference_platform (trim (strip_fences (lit ''I cannot answer that.'')))
              = Inl (SyntaxError (lit ''Unexpected token in JSON''))"
    by code_simp
  have p2: \<open>JSON_parse reference_platform (trim (strip_fences (lit '' {"summary": "ok"} ```'')))
              = Inr (Obj [(lit ''summary'', Str (lit ''ok''))])\<close>
    by code_simp
  have n1: "lit ''I cannot answer that.'' \<noteq> []" by (simp add: lit_def)
  have n2: \<open>lit '' {"summary": "ok"} ```'' \<noteq> []\<close> by (simp add: lit_def)
  show ?thesis
    using normalizeData_single_parse [OF n1, of reference_platform]
      normalizeData_single_parse [OF n2, of reference_platform] p1 p2
    by simp
qed

text \<open>
  Against C2 as stated. In \<open>Answer: {"summary":"x"}\<close> the balanced span parses, so the chain
  of the specification yields the object, but the code returns the fallback with the raw
  text as summary. And \<open>{"summary":"see ```json block"}\<close> parses directly, but the code
  strips the marker inside the string first and yields the summary \<open>see block\<close>.
\<close>

theorem normalizeData_chain_counterexample:
  \<open>spec_parse_chain reference_platform (lit ''Answer: {"summary":"x"}'')
       = Some (Obj [(lit ''summary'', Str (lit ''x''))])
   \<and> normalizeData reference_platform (Str (lit ''Answer: {"summary":"x"}'')) =
       Inr (Obj [(lit ''summary'', Str (lit ''Answer: {"summary":"x"}'')),
                 (lit ''relevant_law'', Str []),
                 (lit ''your_rights'', Str []),
                 (lit ''next_steps'', Arr []),
                 (lit ''disclaimer'', Str DEFAULT_DISCLAIMER)])
   \<and> spec_parse_chain reference_platform (lit ''{"summary":"see ```json block"}'')
       = Some (Obj [(lit ''summary'', Str (lit ''see ```json block''))])
   \<and> normalizeData reference_platform (Str (lit ''{"summary":"see ```json block"}'')) =
       Inr (Obj [(lit ''summary'', Str (lit ''see block'')),
                 (lit ''relevant_law'', Str []),
                 (lit ''your_rights'', Str []),
                 (lit ''next_steps'', Arr []),
                 (lit ''disclaimer'', Str DEFAULT_DISCLAIMER),
                 (lit ''sources'', Arr [])])\<close>
  by code_simp



lemma unwrap_summary_plain:
  assumes "\<not> looks_nested (lookup m (lit ''summary''))"
  shows "unwrap_summary pf (Obj m) = Inr (Obj m)"
proof -
  have "\<not> looks_nested (Str [] :: 'a jsval)"
    by (simp add: looks_nested_def startsWith_def trim_def lit_def)
  with assms show ?thesis
    by (simp add: unwrap_summary_def get_prop_def bind_js_def Let_def)
qed




lemma next_steps_of_shape: "is_Str_array (next_steps_of pf v)"
  by (cases v) (simp_all add: next_steps_of_def is_Str_array_def is_Str_def list_all_iff)

lemma plain_response_shape: "has_string_fields (plain_response s d)"
  by (simp add: has_string_fields_def plain_response_def is_Str_def is_Str_array_def lit_def)

lemma structured_shape: "\<exists>r. structured pf (Obj m) = Inr r \<and> has_string_fields r"
  by (simp add: structured_Obj has_string_fields_def is_Str_def next_steps_of_shape lit_def)

lemma normalizeData_Obj_shape: "\<exists>r. normalizeData pf (Obj m) = Inr r \<and> has_string_fields r"
proof -
  obtain m' where "unwrap_summary pf (Obj m) = Inr (Obj m')"
    using unwrap_summary_Obj by blast
  then have "normalizeData pf (Obj m) = structured pf (Obj m')"
    by (simp add: normalizeData_Obj bind_js_def)
  then show ?thesis
    using structured_shape [of pf m'] by simp
qed

lemma normalizeData_Str_shape:
  assumes "s \<noteq> []"
  shows "\<exists>r. normalizeData pf (Str s) = Inr r \<and> has_string_fields r"
proof (cases "JSON_parse pf (trim (strip_fences s))")
  case (Inl e)
  with assms show ?thesis
    by (simp add: normalizeData_Str_fail plain_response_shape)
next
  case (Inr v)
  show ?thesis
  proof (cases "\<exists>m. v = Obj m")
    case True
    then obtain m where "v = Obj m" by blast
    with assms Inr have "normalizeData pf (Str s) = normalizeData pf (Obj m)"
      by (simp add: normalizeData_Str_Obj)
    then show ?thesis
      using normalizeData_Obj_shape [of pf m] by simp
  next
    case False
    with assms Inr have "normalizeData pf (Str s) = Inr (plain_response s [])"
      by (simp add: normalizeData_Str_other)
    then show ?thesis
      by (simp add: plain_response_shape)
  qed
qed

lemma normalizeData_shape:
  assumes "truthy pf raw"
  shows "\<exists>r. normalizeData pf raw = Inr r \<and> has_string_fields r"
proof (cases raw)
  case (Str s)
  with assms show ?thesis using normalizeData_Str_shape [of s pf] by simp
next
  case (Obj m)
  then show ?thesis using normalizeData_Obj_shape [of pf m] by simp
qed (use assms in \<open>simp_all add: normalizeData_def parse_raw_def plain_response_shape\<close>)





lemma fenced_example_cleaned:
  \<open>trim (strip_fences (lit ''```json\<newline>{"summary":"x"}\<newline>```'')) = lit ''{"summary":"x"}''\<close>
  by code_simp

text \<open>
  C3. For the raw output \<open>```json\n{"summary":"x"}\n```\<close> the normalizer yields the summary
  \<open>x\<close>, an empty relevant_law and your_rights, no next steps and the default disclaimer
  (and an empty list of sources), on every platform whose \<open>JSON.parse\<close> reads the text
  \<open>{"summary":"x"}\<close> as the object it denotes.
\<close>

theorem normalizeData_fenced_example:
  assumes \<open>JSON_parse pf (lit ''{"summary":"x"}'') = Inr (Obj [(lit ''summary'', Str (lit ''x''))])\<close>
  shows \<open>normalizeData pf (Str (lit ''```json\<newline>{"summary":"x"}\<newline>```'')) =
     Inr (Obj [(lit ''summary'', Str (lit ''x'')),
               (lit ''relevant_law'', Str []),
               (lit ''your_rights'', Str []),
               (lit ''next_steps'', Arr []),
               (lit ''disclaimer'',
                  Str (lit ''This is informational only and does not constitute legal advice.'')),
               (lit ''sources'', Arr [])])\<close>
proof -
  let ?raw = \<open>lit ''```json\<newline>{"summary":"x"}\<newline>```''\<close>
  let ?m = "[(lit ''summary'', Str (lit ''x''))] :: (jstring \<times> 'a jsval) list"
  have ne: "?raw \<noteq> []" by (simp add: lit_def)
  have p: "JSON_parse pf (trim (strip_fences ?raw)) = Inr (Obj ?m)"
    using assms by (simp only: fenced_example_cleaned)
  have plain: "\<not> looks_nested (lookup ?m (lit ''summary''))"
    by (simp add: looks_nested_def startsWith_def trim_def lit_def is_space_def)
  have l: "lookup ?m (lit ''summary'') = Str (lit ''x'')"
          "lookup ?m (lit ''relevant_law'') = Undefined"
          "lookup ?m (lit ''your_rights'') = Undefined"
          "lookup ?m (lit ''next_steps'') = Undefined"
          "lookup ?m (lit ''disclaimer'') = Undefined"
          "lookup ?m (lit ''sources'') = Undefined"
    by (simp_all add: lit_def)
  have "normalizeData pf (Str ?raw) = normalizeData pf (Obj ?m)"
    by (rule normalizeData_Str_Obj [OF ne p])
  also have "\<dots> = structured pf (Obj ?m)"
    by (simp only: normalizeData_Obj unwrap_summary_plain [OF plain] bind_js_def sum.case)
  finally show ?thesis
    by (simp only: structured_Obj l)
       (simp add: flattenToString_def next_steps_of_def DEFAULT_DISCLAIMER_def)
qed

theorem normalizeData_fenced_example_witness:
  \<open>normalizeData reference_platform (Str (lit ''```json\<newline>{"summary":"x"}\<newline>```'')) =
     Inr (Obj [(lit ''summary'', Str (lit ''x'')),
               (lit ''relevant_law'', Str []),
               (lit ''your_rights'', Str []),
               (lit ''next_steps'', Arr []),
               (lit ''disclaimer'',
                  Str (lit ''This is informational only and does not constitute legal advice.'')),
               (lit ''sources'', Arr [])])\<close>
proof -
  have \<open>JSON_parse reference_platform (lit ''{"summary":"x"}'')
          = Inr (Obj [(lit ''summary'', Str (lit ''x''))])\<close>
    by code_simp
  then show ?thesis by (rule normalizeData_fenced_example)
qed

text \<open>\<open>normalizeData\<close> returns for every value, of any type, and never throws.\<close>

lemma normalizeData_never_throws: "\<exists>r. normalizeData pf raw = Inr r"
proof (cases "truthy pf raw")
  case True
  then show ?thesis using normalizeData_shape [of pf raw] by blast
next
  case False
  then show ?thesis by (simp add: normalizeData_def)
qed

lemma normalizeData_never_throws_example:
  "(\<exists>r. normalizeData reference_platform (Num (Decimal False [4, 2] 0)) = Inr r)
   \<and> (\<exists>r. normalizeData reference_platform Undefined = Inr r)
   \<and> (\<exists>r. normalizeData reference_platform (Obj [(lit ''summary'', Null)]) = Inr r)"
  using normalizeData_never_throws [of reference_platform "Num (Decimal False [4, 2] 0)"]
    normalizeData_never_throws [of reference_platform Undefined]
    normalizeData_never_throws [of reference_platform "Obj [(lit ''summary'', Null)]"]
  by (intro conjI)

section \<open>Properties of the API client\<close>





section \<open>Properties of the keep-alive handler\<close>

text \<open>
  C7, as the code has it. The handler always responds and never throws. When the
  backend answers with a JSON body it sends status 200 and a payload with the keys
  status (\<open>ok\<close>), timestamp and backend; when the request fails or the body is not JSON it
  sends status 500 and a payload with the keys status (\<open>error\<close>), timestamp and message.
\<close>

theorem handler_always_responds:
  "\<exists>r. handler pf fetch env now = Inr r \<and>
     ((code r = 200
       \<and> (\<exists>resp data. fetch (health_request env) = Inr resp \<and> response_json pf resp = Inr data
             \<and> payload r = Obj [(lit ''status'', Str (lit ''ok'')), (lit ''timestamp'', Str now),
                                (lit ''backend'', data)]))
      \<or> (code r = 500
          \<and> (\<exists>e. (fetch (health_request env) = Inl e
                   \<or> (\<exists>resp. fetch (health_request env) = Inr resp \<and> response_json pf resp = Inl e))
                \<and> payload r = Obj [(lit ''status'', Str (lit ''error'')), (lit ''timestamp'', Str now),
                                   (lit ''message'', Str (message e))])))"
proof (cases "fetch (health_request env)")
  case (Inl e)
  then show ?thesis by (simp add: handler_def bind_js_def)
next
  case (Inr resp)
  then show ?thesis
    by (cases "response_json pf resp") (simp_all add: handler_def bind_js_def)
qed

theorem handler_always_responds_witness:
  \<open>(\<exists>r. handler reference_platform (\<lambda>req. Inl (TypeError (lit ''fetch failed''))) None
          (lit ''2024-01-01T00:00:00.000Z'') = Inr r
       \<and> code r = 500
       \<and> payload r = Obj [(lit ''status'', Str (lit ''error'')),
                          (lit ''timestamp'', Str (lit ''2024-01-01T00:00:00.000Z'')),
                          (lit ''message'', Str (lit ''fetch failed''))])
   \<and> (\<exists>r. handler reference_platform
          (\<lambda>req. Inr \<lparr> ok = True, status = 200, body_text = lit ''{"status":"healthy"}'' \<rparr>) None
          (lit ''2024-01-01T00:00:00.000Z'') = Inr r
       \<and> code r = 200
       \<and> payload r = Obj [(lit ''status'', Str (lit ''ok'')),
                          (lit ''timestamp'', Str (lit ''2024-01-01T00:00:00.000Z'')),
                          (lit ''backend'', Obj [(lit ''status'', Str (lit ''healthy''))])])\<close>
proof -
  let ?resp = \<open>\<lparr> ok = True, status = 200, body_text = lit ''{"status":"healthy"}'' \<rparr>\<close>
  have j: \<open>response_json reference_platform ?resp = Inr (Obj [(lit ''status'', Str (lit ''healthy''))])\<close>
    by code_simp
  have a: "\<exists>r. handler reference_platform (\<lambda>req. Inl (TypeError (lit ''fetch failed''))) None
          (lit ''2024-01-01T00:00:00.000Z'') = Inr r
       \<and> code r = 500
       \<and> payload r = Obj [(lit ''status'', Str (lit ''error'')),
                          (lit ''timestamp'', Str (lit ''2024-01-01T00:00:00.000Z'')),
                          (lit ''message'', Str (lit ''fetch failed''))]"
    using handler_always_responds [of reference_platform "\<lambda>req. Inl (TypeError (lit ''fetch failed''))" None
      "lit ''2024-01-01T00:00:00.000Z''"]
    by auto
  have b: "\<exists>r. handler reference_platform (\<lambda>req. Inr ?resp) None
          (lit ''2024-01-01T00:00:00.000Z'') = Inr r
       \<and> code r = 200
       \<and> payload r = Obj [(lit ''status'', Str (lit ''ok'')),
                          (lit ''timestamp'', Str (lit ''2024-01-01T00:00:00.000Z'')),
                          (lit ''backend'', Obj [(lit ''status'', Str (lit ''healthy''))])]"
    using handler_always_responds [of reference_platform "\<lambda>req. Inr ?resp" None
      "lit ''2024-01-01T00:00:00.000Z''"] j
    by auto
  from a b show ?thesis by (rule conjI)
qed

text \<open>
  Against C7 as stated: with the backend reachable and not reachable the payloads have
  different keys, and the status codes differ.
\<close>

theorem handler_payload_shape_counterexample:
  \<open>handler reference_platform
      (\<lambda>req. Inr \<lparr> ok = True, status = 200, body_text = lit ''{"status":"healthy"}'' \<rparr>)
      None (lit ''2024-01-01T00:00:00.000Z'') =
     Inr \<lparr> code = 200,
           payload = Obj [(lit ''status'', Str (lit ''ok'')),
                          (lit ''timestamp'', Str (lit ''2024-01-01T00:00:00.000Z'')),
                          (lit ''backend'', Obj [(lit ''status'', Str (lit ''healthy''))])] \<rparr>
   \<and> handler reference_platform
      (\<lambda>req. Inl (TypeError (lit ''fetch failed'')))
      None (lit ''2024-01-01T00:00:00.000Z'') =
     Inr \<lparr> code = 500,
           payload = Obj [(lit ''status'', Str (lit ''error'')),
                          (lit ''timestamp'', Str (lit ''2024-01-01T00:00:00.000Z'')),
                          (lit ''message'', Str (lit ''fetch failed''))] \<rparr>
   \<and> [lit ''status'', lit ''timestamp'', lit ''backend''] \<noteq> [lit ''status'', lit ''timestamp'', lit ''message'']\<close>
  by code_simp

section \<open>Properties of ChatInput\<close>







section \<open>Properties of App\<close>






end
